theory Spec2Isabelle
  imports Complex_Main "HOL-Library.Sublist"
begin

section \<open>Values, exceptions and the outside world\<close>

text \<open>
  Python values that cross the interfaces of the two adapters (JSON-able data and the
  untyped \<^verbatim>\<open>Any\<close> of keyword arguments and chain inputs). A float is only carried
  from a field to the request body and never computed with, so it is kept as a number.
\<close>

datatype pyval =
    PyNone
  | PyBool bool
  | PyInt int
  | PyFloat real
  | PyStr string
  | PyList "pyval list"
  | PyDict "(string \<times> pyval) list"

text \<open>
  Exceptions are values. \<open>Raised\<close> stands for any exception of a collaborator (the HTTP
  transport, the language model, the graph database); a \<open>ValidationError\<close> carries the
  errors collected while an instance is constructed.
\<close>

datatype exn =
    KeyError string
  | ValueError string
  | ExtraForbidden string
  | ValidationError "exn list"
  | Raised string

type_synonym pydict = "string \<rightharpoonup> pyval"

text \<open>\<^verbatim>\<open>f"{x}"\<close> for an optional string: \<^verbatim>\<open>None\<close> prints as its name.\<close>

fun format_opt :: "string option \<Rightarrow> string" where
  "format_opt None = ''None''"
| "format_opt (Some s) = s"

text \<open>An optional field as a Python value: \<^verbatim>\<open>None\<close> when unset.\<close>

fun opt :: "('a \<Rightarrow> pyval) \<Rightarrow> 'a option \<Rightarrow> pyval" where
  "opt f None = PyNone"
| "opt f (Some x) = f x"

section \<open>The Writer completion adapter (\<^verbatim>\<open>langchain/llms/writer.py\<close>)\<close>

subsection \<open>Fields\<close>

record writer =
  writer_org_id :: "string option"
  model_id :: string
  min_tokens :: "int option"
  max_tokens :: "int option"
  temperature :: "real option"
  top_p :: "real option"
  stop :: "string list option"
  presence_penalty :: "real option"
  repetition_penalty :: "real option"
  best_of :: "int option"
  logprobs :: bool
  n :: "int option"
  writer_api_key :: "string option"
  base_url :: "string option"

text \<open>The declared defaults of the class body.\<close>

definition writer_defaults :: writer where
  "writer_defaults =
     \<lparr> writer_org_id = None, model_id = ''palmyra-instruct'', min_tokens = None,
       max_tokens = None, temperature = None, top_p = None, stop = None,
       presence_penalty = None, repetition_penalty = None, best_of = None,
       logprobs = False, n = None, writer_api_key = None, base_url = None \<rparr>"

definition writer_fields :: "string list" where
  "writer_fields =
     [''writer_org_id'', ''model_id'', ''min_tokens'', ''max_tokens'', ''temperature'',
      ''top_p'', ''stop'', ''presence_penalty'', ''repetition_penalty'', ''best_of'',
      ''logprobs'', ''n'', ''writer_api_key'', ''base_url'']"

subsection \<open>The HTTP transport\<close>

record http_request =
  url :: string
  headers :: "(string \<times> string) list"
  json :: pydict

record http_response =
  status_code :: int
  resp_text :: string

text \<open>
  \<^verbatim>\<open>requests.post\<close> is a collaborator: it either raises (a network-layer failure) or
  returns a response object, whatever the status code of that response.
\<close>

type_synonym transport = "http_request \<Rightarrow> exn + http_response"

text \<open>A transport that answers every request with the same response.\<close>

definition always_respond :: "http_response \<Rightarrow> transport" where
  "always_respond r req = Inr r"

text \<open>A transport that fails on every request with the same exception.\<close>

definition always_raise :: "exn \<Rightarrow> transport" where
  "always_raise e req = Inl e"

text \<open>
  The process-wide state the adapter touches: the environment variables it reads when it
  is constructed, and the requests it has handed to the transport.
\<close>

record world =
  environ :: "string \<rightharpoonup> string"
  posted :: "http_request list"

subsection \<open>Request parameters\<close>

text \<open>\<^verbatim>\<open>Writer._default_params\<close>: a dict literal with ten keys.\<close>

definition default_params :: "writer \<Rightarrow> pydict" where
  "default_params w =
     [''minTokens'' \<mapsto> opt PyInt (min_tokens w),
      ''maxTokens'' \<mapsto> opt PyInt (max_tokens w),
      ''temperature'' \<mapsto> opt PyFloat (temperature w),
      ''topP'' \<mapsto> opt PyFloat (top_p w),
      ''stop'' \<mapsto> opt (\<lambda>xs. PyList (map PyStr xs)) (stop w),
      ''presencePenalty'' \<mapsto> opt PyFloat (presence_penalty w),
      ''repetitionPenalty'' \<mapsto> opt PyFloat (repetition_penalty w),
      ''bestOf'' \<mapsto> opt PyInt (best_of w),
      ''logprobs'' \<mapsto> PyBool (logprobs w),
      ''n'' \<mapsto> opt PyInt (n w)]"

text \<open>The keys of that literal, the recognized options of the request.\<close>

definition param_keys :: "string list" where
  "param_keys =
     [''minTokens'', ''maxTokens'', ''temperature'', ''topP'', ''stop'', ''presencePenalty'',
      ''repetitionPenalty'', ''bestOf'', ''logprobs'', ''n'']"

text \<open>\<^verbatim>\<open>params = {**self._default_params, **kwargs}\<close> in \<^verbatim>\<open>Writer._call\<close>.\<close>

definition call_params :: "writer \<Rightarrow> pydict \<Rightarrow> pydict" where
  "call_params w kwargs = default_params w ++ kwargs"

text \<open>\<^verbatim>\<open>Writer._identifying_params\<close> and \<^verbatim>\<open>Writer._llm_type\<close>.\<close>

definition identifying_params :: "writer \<Rightarrow> pydict" where
  "identifying_params w =
     [''model_id'' \<mapsto> PyStr (model_id w), ''writer_org_id'' \<mapsto> opt PyStr (writer_org_id w)]
     ++ default_params w"

definition llm_type :: "writer \<Rightarrow> string" where
  "llm_type w = ''writer''"

subsection \<open>Endpoint\<close>

text \<open>The first statement of \<^verbatim>\<open>Writer._call\<close>.\<close>

definition endpoint :: "writer \<Rightarrow> string" where
  "endpoint w =
     (case base_url w of
        Some u \<Rightarrow> u
      | None \<Rightarrow>
          ''https://enterprise-api.writer.com/llm''
          @ ''/organization/'' @ format_opt (writer_org_id w)
          @ ''/model/'' @ model_id w @ ''/completions'')"

definition build_request :: "writer \<Rightarrow> string \<Rightarrow> pydict \<Rightarrow> http_request" where
  "build_request w prompt kwargs =
     \<lparr> url = endpoint w,
       headers = [(''Authorization'', format_opt (writer_api_key w)),
                  (''Content-Type'', ''application/json''),
                  (''Accept'', ''application/json'')],
       json = [''prompt'' \<mapsto> PyStr prompt] ++ call_params w kwargs \<rparr>"

subsection \<open>Stop sequences\<close>

text \<open>
  Modelled from the spec: \<^verbatim>\<open>enforce_stop_tokens\<close> of \<^verbatim>\<open>langchain.llms.utils\<close> is
  imported by the adapter and is not part of the sources at hand. The specification has
  it scan the text left to right for the earliest occurrence of any listed stop sequence
  and cut the text immediately before it, and return the text unmodified if none occurs.
\<close>

fun enforce_stop_tokens :: "string \<Rightarrow> string list \<Rightarrow> string" where
  "enforce_stop_tokens [] stops = []"
| "enforce_stop_tokens (c # cs) stops =
     (if list_ex (\<lambda>s. prefix s (c # cs)) stops then []
      else c # enforce_stop_tokens cs stops)"

subsection \<open>The call\<close>

text \<open>
  \<^verbatim>\<open>Writer._call\<close>: one POST; the body text of whatever response comes back is the
  completion, cut at a stop sequence when the caller passed a stop list. An exception of
  the transport is not caught.
\<close>

definition Writer_call ::
  "writer \<Rightarrow> transport \<Rightarrow> string \<Rightarrow> string list option \<Rightarrow> pydict \<Rightarrow> world
     \<Rightarrow> (exn + string) \<times> world" where
  "Writer_call w requests_post prompt stop_arg kwargs s =
     (let req = build_request w prompt kwargs;
          s' = s\<lparr>posted := posted s @ [req]\<rparr>
      in case requests_post req of
           Inl e \<Rightarrow> (Inl e, s')
         | Inr response \<Rightarrow>
             (let txt = resp_text response
              in case stop_arg of
                   None \<Rightarrow> (Inr txt, s')
                 | Some stops \<Rightarrow> (Inr (enforce_stop_tokens txt stops), s')))"

subsection \<open>Construction\<close>

text \<open>
  Modelled from the spec: \<^verbatim>\<open>get_from_dict_or_env\<close> of \<^verbatim>\<open>langchain.utils\<close> is imported
  by the adapter and is not part of the sources at hand. The specification has a
  credential resolved from the explicit construction argument or from the named entry of
  the process environment, and the resolution fail if neither supplies a value. The first
  argument is the entry of the values under the key.
\<close>

definition get_from_dict_or_env ::
  "string option \<Rightarrow> string \<Rightarrow> string \<Rightarrow> (string \<rightharpoonup> string) \<Rightarrow> exn + string" where
  "get_from_dict_or_env given key env_key env =
     (case given of
        Some v \<Rightarrow> Inr v
      | None \<Rightarrow> (case env env_key of Some v \<Rightarrow> Inr v | None \<Rightarrow> Inl (ValueError key)))"

text \<open>
  \<^verbatim>\<open>Writer.validate_environment\<close>, the root validator: the values are the declared
  fields; the API key is resolved and stored first, then the organization id.
\<close>

definition validate_environment :: "writer \<Rightarrow> (string \<rightharpoonup> string) \<Rightarrow> exn + writer" where
  "validate_environment values env =
     (case get_from_dict_or_env (writer_api_key values) ''writer_api_key'' ''WRITER_API_KEY'' env of
        Inl e \<Rightarrow> Inl e
      | Inr key \<Rightarrow>
          (let values1 = values\<lparr>writer_api_key := Some key\<rparr>
           in case get_from_dict_or_env (writer_org_id values1) ''writer_org_id''
                     ''WRITER_ORG_ID'' env of
                Inl e \<Rightarrow> Inl e
              | Inr org \<Rightarrow> Inr (values1\<lparr>writer_org_id := Some org\<rparr>)))"

text \<open>
  Constructing the adapter, \<^verbatim>\<open>Writer(**kwargs)\<close>. The class is a validated model whose
  configuration says \<^verbatim>\<open>extra = Extra.forbid\<close>: every keyword name that is not a declared
  field is an error, the root validator runs on the declared fields, and the construction
  raises one validation error holding everything that went wrong. \<open>names\<close> are the
  keyword names the caller supplied, \<open>given\<close> the declared fields with the supplied
  values (the declared default where the caller gave none), and \<open>base_fields\<close> the
  field names that the class inherits from its base classes, which are declared elsewhere.
\<close>

definition Writer_init ::
  "string list \<Rightarrow> string list \<Rightarrow> writer \<Rightarrow> world \<Rightarrow> (exn + writer) \<times> world" where
  "Writer_init base_fields names given s =
     (let extra = filter (\<lambda>k. k \<notin> set (writer_fields @ base_fields)) names;
          checked = validate_environment given (environ s);
          errors = map ExtraForbidden extra
                   @ (case checked of Inl e \<Rightarrow> [e] | Inr _ \<Rightarrow> [])
      in case checked of
           Inl e \<Rightarrow> (Inl (ValidationError errors), s)
         | Inr w \<Rightarrow> (if errors = [] then Inr w else Inl (ValidationError errors), s))"

subsection \<open>Where a stop sequence occurs\<close>

text \<open>
  The words of the specification about stop sequences: a sequence occurs in a text at an
  index when the text continues with it from there; the earliest occurrence of any listed
  sequence is the least index at which one of them occurs.
\<close>

definition occurs_at :: "string \<Rightarrow> string \<Rightarrow> nat \<Rightarrow> bool" where
  "occurs_at s t i = (i \<le> length t \<and> prefix s (drop i t))"

definition stop_at :: "string list \<Rightarrow> string \<Rightarrow> nat \<Rightarrow> bool" where
  "stop_at stops t i = list_ex (\<lambda>s. occurs_at s t i) stops"

definition earliest_stop :: "string list \<Rightarrow> string \<Rightarrow> nat \<Rightarrow> bool" where
  "earliest_stop stops t i = (stop_at stops t i \<and> list_all (\<lambda>j. \<not> stop_at stops t j) [0..<i])"

section \<open>The graph question-answering chain (\<^verbatim>\<open>langchain/chains/graph_qa/kuzu.py\<close>)\<close>

text \<open>
  The chain and its collaborators. The graph gives its schema and runs a query; the two
  language-model chains take named inputs; each of them may raise. Every collaborator is
  called at most once in an invocation, so a function of the arguments stands for
  whatever it does on that call.
\<close>

record kuzu_qa_chain =
  graph_get_schema :: string
  graph_query :: "string \<Rightarrow> exn + pyval"
  cypher_generation_chain_run :: "pydict \<Rightarrow> exn + string"
  qa_chain :: "pydict \<Rightarrow> exn + pydict"
  qa_chain_output_key :: string
  input_key :: string
  output_key :: string

text \<open>What an invocation does to the outside, in order.\<close>

datatype event =
    GenerationRun pydict
  | OnText string
  | GraphQuery string
  | AnswerCall pydict

definition input_keys :: "kuzu_qa_chain \<Rightarrow> string list" where
  "input_keys c = [input_key c]"

definition output_keys :: "kuzu_qa_chain \<Rightarrow> string list" where
  "output_keys c = [output_key c]"

text \<open>
  \<^verbatim>\<open>KuzuQAChain._call\<close>. \<open>str\<close> is Python's \<^verbatim>\<open>str\<close> on the query result, used for the
  progress text only. Indexing a dict with a key it does not have raises \<^verbatim>\<open>KeyError\<close>.
\<close>

definition KuzuQAChain_call ::
  "kuzu_qa_chain \<Rightarrow> (pyval \<Rightarrow> string) \<Rightarrow> pydict \<Rightarrow> event list \<times> (exn + pydict)" where
  "KuzuQAChain_call c str inputs =
     (case inputs (input_key c) of
        None \<Rightarrow> ([], Inl (KeyError (input_key c)))
      | Some question \<Rightarrow>
          (let gen_inputs = [''question'' \<mapsto> question,
                             ''schema'' \<mapsto> PyStr (graph_get_schema c)];
               tr1 = [GenerationRun gen_inputs]
           in case cypher_generation_chain_run c gen_inputs of
                Inl e \<Rightarrow> (tr1, Inl e)
              | Inr generated_cypher \<Rightarrow>
                  (let tr2 = tr1 @ [OnText ''Generated Cypher:'', OnText generated_cypher,
                                    GraphQuery generated_cypher]
                   in case graph_query c generated_cypher of
                        Inl e \<Rightarrow> (tr2, Inl e)
                      | Inr context \<Rightarrow>
                          (let qa_inputs = [''question'' \<mapsto> question,
                                            ''context'' \<mapsto> context];
                               tr3 = tr2 @ [OnText ''Full Context:'', OnText (str context),
                                            AnswerCall qa_inputs]
                           in case qa_chain c qa_inputs of
                                Inl e \<Rightarrow> (tr3, Inl e)
                              | Inr result \<Rightarrow>
                                  (case result (qa_chain_output_key c) of
                                     None \<Rightarrow> (tr3, Inl (KeyError (qa_chain_output_key c)))
                                   | Some answer \<Rightarrow>
                                       (tr3, Inr [output_key c \<mapsto> answer]))))))"

text \<open>
  An instance constructed without overriding the two key fields: they hold the defaults of
  the class body.
\<close>

definition KuzuQAChain_new ::
  "string \<Rightarrow> (string \<Rightarrow> exn + pyval) \<Rightarrow> (pydict \<Rightarrow> exn + string) \<Rightarrow> (pydict \<Rightarrow> exn + pydict)
     \<Rightarrow> string \<Rightarrow> kuzu_qa_chain" where
  "KuzuQAChain_new schema run_query generate answer answer_key =
     \<lparr> graph_get_schema = schema, graph_query = run_query,
       cypher_generation_chain_run = generate, qa_chain = answer,
       qa_chain_output_key = answer_key, input_key = ''query'', output_key = ''result'' \<rparr>"

text \<open>
  A small instance to run the chain on: a graph that knows one query, a generation chain
  that always writes that query, and an answer chain that reads the context back.
\<close>

definition example_chain :: kuzu_qa_chain where
  "example_chain =
     KuzuQAChain_new ''Node: Person(name)''
       (\<lambda>q. if q = ''MATCH (p:Person) RETURN p.name''
            then Inr (PyList [PyDict [(''p.name'', PyStr ''Ada'')]])
            else Inl (Raised ''RuntimeError''))
       (\<lambda>m. Inr ''MATCH (p:Person) RETURN p.name'')
       (\<lambda>m. Inr [''text'' \<mapsto> PyStr ''Ada''])
       ''text''"

definition broken_graph_chain :: kuzu_qa_chain where
  "broken_graph_chain = example_chain\<lparr>cypher_generation_chain_run := (\<lambda>m. Inr ''MATCH'')\<rparr>"

text \<open>The same with a generation chain that writes the query for one question only.\<close>

definition asking_chain :: kuzu_qa_chain where
  "asking_chain =
     example_chain\<lparr>cypher_generation_chain_run :=
       (\<lambda>m. if m ''question'' = Some (PyStr ''Who is there?'')
            then Inr ''MATCH (p:Person) RETURN p.name''
            else Inl (Raised ''NoQuery''))\<rparr>"

text \<open>The calls of one kind in a trace, with their arguments.\<close>

fun generation_calls :: "event list \<Rightarrow> pydict list" where
  "generation_calls [] = []"
| "generation_calls (GenerationRun m # es) = m # generation_calls es"
| "generation_calls (_ # es) = generation_calls es"

fun answer_calls :: "event list \<Rightarrow> pydict list" where
  "answer_calls [] = []"
| "answer_calls (AnswerCall m # es) = m # answer_calls es"
| "answer_calls (_ # es) = answer_calls es"

fun graph_queries :: "event list \<Rightarrow> string list" where
  "graph_queries [] = []"
| "graph_queries (GraphQuery q # es) = q # graph_queries es"
| "graph_queries (_ # es) = graph_queries es"

section \<open>Properties of the Writer adapter\<close>

subsection \<open>Request parameters\<close>

lemma dom_default_params: "dom (default_params w) = set param_keys"
  by (simp add: default_params_def param_keys_def insert_commute)

lemma call_params_lookup:
  "call_params w kwargs k = (case kwargs k of Some v \<Rightarrow> Some v | None \<Rightarrow> default_params w k)"
  by (simp add: call_params_def map_add_def)

lemma dom_call_params: "dom (call_params w kwargs) = set param_keys \<union> dom kwargs"
  by (simp add: call_params_def dom_default_params Un_commute)

lemma json_lookup:
  "json (build_request w prompt kwargs) k =
     (case call_params w kwargs k of Some v \<Rightarrow> Some v
      | None \<Rightarrow> if k = ''prompt'' then Some (PyStr prompt) else None)"
  by (simp add: build_request_def map_add_def split: option.splits)

lemma default_params_unset:
  "(min_tokens w = None \<longrightarrow> default_params w ''minTokens'' = Some PyNone) \<and>
   (max_tokens w = None \<longrightarrow> default_params w ''maxTokens'' = Some PyNone) \<and>
   (temperature w = None \<longrightarrow> default_params w ''temperature'' = Some PyNone) \<and>
   (top_p w = None \<longrightarrow> default_params w ''topP'' = Some PyNone) \<and>
   (stop w = None \<longrightarrow> default_params w ''stop'' = Some PyNone) \<and>
   (presence_penalty w = None \<longrightarrow> default_params w ''presencePenalty'' = Some PyNone) \<and>
   (repetition_penalty w = None \<longrightarrow> default_params w ''repetitionPenalty'' = Some PyNone) \<and>
   (best_of w = None \<longrightarrow> default_params w ''bestOf'' = Some PyNone) \<and>
   (n w = None \<longrightarrow> default_params w ''n'' = Some PyNone)"
  by (simp add: default_params_def)

text \<open>
  C1 (as amended). The parameters of the outbound request are the key-by-key merge of the
  adapter's default parameters with the call-site overrides, the call-site value winning
  for every key that both have. The default parameters always have all ten recognized
  keys: an option that is unset is present with the value \<^verbatim>\<open>None\<close>, and \<open>logprobs\<close> is
  always present. So the outbound parameters have the ten recognized keys and the keys of
  the overrides, and the JSON body is these parameters and the prompt.
\<close>

theorem call_params_merge:
  "(\<forall>k. call_params w kwargs k
          = (case kwargs k of Some v \<Rightarrow> Some v | None \<Rightarrow> default_params w k)) \<and>
   dom (default_params w) = set param_keys \<and>
   dom (call_params w kwargs) = set param_keys \<union> dom kwargs \<and>
   ((min_tokens w = None \<longrightarrow> default_params w ''minTokens'' = Some PyNone) \<and>
    (max_tokens w = None \<longrightarrow> default_params w ''maxTokens'' = Some PyNone) \<and>
    (temperature w = None \<longrightarrow> default_params w ''temperature'' = Some PyNone) \<and>
    (top_p w = None \<longrightarrow> default_params w ''topP'' = Some PyNone) \<and>
    (stop w = None \<longrightarrow> default_params w ''stop'' = Some PyNone) \<and>
    (presence_penalty w = None \<longrightarrow> default_params w ''presencePenalty'' = Some PyNone) \<and>
    (repetition_penalty w = None \<longrightarrow> default_params w ''repetitionPenalty'' = Some PyNone) \<and>
    (best_of w = None \<longrightarrow> default_params w ''bestOf'' = Some PyNone) \<and>
    (n w = None \<longrightarrow> default_params w ''n'' = Some PyNone)) \<and>
   (\<forall>k. json (build_request w prompt kwargs) k
          = (case call_params w kwargs k of Some v \<Rightarrow> Some v
             | None \<Rightarrow> if k = ''prompt'' then Some (PyStr prompt) else None))"
  by (intro conjI allI call_params_lookup dom_default_params dom_call_params
        default_params_unset json_lookup)

text \<open>
  With temperature \<open>0.5\<close> and \<open>n = 1\<close> configured and the override \<open>temperature = 0.9\<close>,
  the request has temperature \<open>0.9\<close>, \<open>n = 1\<close>, \<open>logprobs\<close> false and the seven other
  options with the value \<^verbatim>\<open>None\<close>.
\<close>

theorem call_params_merge_witness:
  "call_params (writer_defaults\<lparr>temperature := Some 0.5, n := Some 1\<rparr>)
       [''temperature'' \<mapsto> PyFloat 0.9] ''temperature'' = Some (PyFloat 0.9) \<and>
   call_params (writer_defaults\<lparr>temperature := Some 0.5, n := Some 1\<rparr>)
       [''temperature'' \<mapsto> PyFloat 0.9] ''n'' = Some (PyInt 1) \<and>
   call_params (writer_defaults\<lparr>temperature := Some 0.5, n := Some 1\<rparr>)
       [''temperature'' \<mapsto> PyFloat 0.9] ''logprobs'' = Some (PyBool False) \<and>
   call_params (writer_defaults\<lparr>temperature := Some 0.5, n := Some 1\<rparr>)
       [''temperature'' \<mapsto> PyFloat 0.9] ''minTokens'' = Some PyNone \<and>
   call_params (writer_defaults\<lparr>temperature := Some 0.5, n := Some 1\<rparr>)
       [''temperature'' \<mapsto> PyFloat 0.9] ''maxTokens'' = Some PyNone \<and>
   call_params (writer_defaults\<lparr>temperature := Some 0.5, n := Some 1\<rparr>)
       [''temperature'' \<mapsto> PyFloat 0.9] ''topP'' = Some PyNone \<and>
   call_params (writer_defaults\<lparr>temperature := Some 0.5, n := Some 1\<rparr>)
       [''temperature'' \<mapsto> PyFloat 0.9] ''stop'' = Some PyNone \<and>
   call_params (writer_defaults\<lparr>temperature := Some 0.5, n := Some 1\<rparr>)
       [''temperature'' \<mapsto> PyFloat 0.9] ''presencePenalty'' = Some PyNone \<and>
   call_params (writer_defaults\<lparr>temperature := Some 0.5, n := Some 1\<rparr>)
       [''temperature'' \<mapsto> PyFloat 0.9] ''repetitionPenalty'' = Some PyNone \<and>
   call_params (writer_defaults\<lparr>temperature := Some 0.5, n := Some 1\<rparr>)
       [''temperature'' \<mapsto> PyFloat 0.9] ''bestOf'' = Some PyNone \<and>
   dom (call_params (writer_defaults\<lparr>temperature := Some 0.5, n := Some 1\<rparr>)
       [''temperature'' \<mapsto> PyFloat 0.9]) = set param_keys"
proof -
  let ?w = "writer_defaults\<lparr>temperature := Some 0.5, n := Some 1\<rparr>"
  let ?kw = "[''temperature'' \<mapsto> PyFloat 0.9]"
  note m = call_params_merge [of ?w ?kw "''hello''"]
  from m have look: "\<And>k. call_params ?w ?kw k
      = (case ?kw k of Some v \<Rightarrow> Some v | None \<Rightarrow> default_params ?w k)"
    by blast
  from m have d: "dom (call_params ?w ?kw) = set param_keys \<union> dom ?kw"
    by blast
  have v: "default_params ?w ''n'' = Some (PyInt 1)"
    "default_params ?w ''logprobs'' = Some (PyBool False)"
    by (simp_all add: default_params_def writer_defaults_def)
  from m have u: "default_params ?w ''minTokens'' = Some PyNone"
    "default_params ?w ''maxTokens'' = Some PyNone"
    "default_params ?w ''topP'' = Some PyNone"
    "default_params ?w ''stop'' = Some PyNone"
    "default_params ?w ''presencePenalty'' = Some PyNone"
    "default_params ?w ''repetitionPenalty'' = Some PyNone"
    "default_params ?w ''bestOf'' = Some PyNone"
    by (simp_all add: writer_defaults_def)
  have k: "''temperature'' \<in> set param_keys" by (simp add: param_keys_def)
  show ?thesis
    unfolding look d using v u k by auto
qed

text \<open>
  The claim as it was stated, that the unset options are absent and the request of the
  example has the two keys \<open>temperature\<close> and \<open>n\<close> only, fails on that very example.
\<close>


theorem unset_options_counterexample:
  "call_params (writer_defaults\<lparr>temperature := Some 0.5, n := Some 1\<rparr>)
       [''temperature'' \<mapsto> PyFloat 0.9]
     \<noteq> [''temperature'' \<mapsto> PyFloat 0.9, ''n'' \<mapsto> PyInt 1]"
proof
  assume "call_params (writer_defaults\<lparr>temperature := Some 0.5, n := Some 1\<rparr>)
            [''temperature'' \<mapsto> PyFloat 0.9]
          = [''temperature'' \<mapsto> PyFloat 0.9, ''n'' \<mapsto> PyInt 1]"
  then have "call_params (writer_defaults\<lparr>temperature := Some 0.5, n := Some 1\<rparr>)
               [''temperature'' \<mapsto> PyFloat 0.9] ''topP''
             = [''temperature'' \<mapsto> PyFloat 0.9, ''n'' \<mapsto> PyInt 1] ''topP''"
    by (rule arg_cong)
  then show False
    by (simp add: call_params_def default_params_def writer_defaults_def map_add_def)
qed

subsection \<open>The response\<close>

lemma Writer_call_response:
  "requests_post (build_request w prompt kwargs) = Inr r \<Longrightarrow>
   fst (Writer_call w requests_post prompt stop_arg kwargs s)
     = Inr (case stop_arg of None \<Rightarrow> resp_text r
            | Some stops \<Rightarrow> enforce_stop_tokens (resp_text r) stops)"
  by (simp add: Writer_call_def Let_def split: option.splits)

lemma Writer_call_raise:
  "requests_post (build_request w prompt kwargs) = Inl e \<Longrightarrow>
   fst (Writer_call w requests_post prompt stop_arg kwargs s) = Inl e"
  by (simp add: Writer_call_def Let_def)

lemma Writer_call_posted:
  "posted (snd (Writer_call w requests_post prompt stop_arg kwargs s))
     = posted s @ [build_request w prompt kwargs]"
  by (simp add: Writer_call_def Let_def split: sum.splits option.splits)

text \<open>
  C3 (as amended). When the POST returns a response, with a success status or not, the
  call returns a value: the body text of the response (cut at a stop sequence when a stop
  list was passed); the status code is never read. When the transport itself raises, the
  call raises the same exception. Either way exactly one request has been posted.
\<close>

theorem response_returned_whatever_status:
  "(\<forall>r. requests_post (build_request w prompt kwargs) = Inr r \<longrightarrow>
        fst (Writer_call w requests_post prompt stop_arg kwargs s)
          = Inr (case stop_arg of
                   None \<Rightarrow> resp_text r
                 | Some stops \<Rightarrow> enforce_stop_tokens (resp_text r) stops) \<and>
        fst (Writer_call w requests_post prompt None kwargs s) = Inr (resp_text r)) \<and>
   (\<forall>e. requests_post (build_request w prompt kwargs) = Inl e \<longrightarrow>
        fst (Writer_call w requests_post prompt stop_arg kwargs s) = Inl e) \<and>
   posted (snd (Writer_call w requests_post prompt stop_arg kwargs s))
     = posted s @ [build_request w prompt kwargs]"
  by (simp add: Writer_call_response Writer_call_raise Writer_call_posted)

theorem response_returned_whatever_status_witness:
  "fst (Writer_call (writer_defaults\<lparr>writer_org_id := Some ''org1'', writer_api_key := Some ''key''\<rparr>)
          (always_respond \<lparr>status_code = 500, resp_text = ''Internal Server Error''\<rparr>)
          ''hello'' None Map.empty \<lparr>environ = Map.empty, posted = []\<rparr>)
     = Inr ''Internal Server Error'' \<and>
   fst (Writer_call (writer_defaults\<lparr>writer_org_id := Some ''org1'', writer_api_key := Some ''key''\<rparr>)
          (always_respond \<lparr>status_code = 500, resp_text = ''Internal Server Error''\<rparr>)
          ''hello'' (Some [''Server'']) Map.empty \<lparr>environ = Map.empty, posted = []\<rparr>)
     = Inr ''Internal '' \<and>
   fst (Writer_call (writer_defaults\<lparr>writer_org_id := Some ''org1'', writer_api_key := Some ''key''\<rparr>)
          (always_raise (Raised ''ConnectionError''))
          ''hello'' None Map.empty \<lparr>environ = Map.empty, posted = []\<rparr>)
     = Inl (Raised ''ConnectionError'')"
proof -
  let ?w = "writer_defaults\<lparr>writer_org_id := Some ''org1'', writer_api_key := Some ''key''\<rparr>"
  let ?r = "\<lparr>status_code = 500, resp_text = ''Internal Server Error''\<rparr>"
  let ?s = "\<lparr>environ = Map.empty, posted = []\<rparr>"
  have cut: "enforce_stop_tokens ''Internal Server Error'' [''Server''] = ''Internal ''"
    by code_simp
  have post: "always_respond ?r (build_request ?w ''hello'' Map.empty) = Inr ?r"
    by (simp add: always_respond_def)
  have fail: "always_raise (Raised ''ConnectionError'') (build_request ?w ''hello'' Map.empty)
      = Inl (Raised ''ConnectionError'')"
    by (simp add: always_raise_def)
  from post
    response_returned_whatever_status
      [of "always_respond ?r" ?w "''hello''" Map.empty None ?s]
  have a: "fst (Writer_call ?w (always_respond ?r) ''hello'' None Map.empty ?s)
      = Inr ''Internal Server Error''"
    by simp
  from post cut
    response_returned_whatever_status
      [of "always_respond ?r" ?w "''hello''" Map.empty "Some [''Server'']" ?s]
  have b: "fst (Writer_call ?w (always_respond ?r) ''hello'' (Some [''Server'']) Map.empty ?s)
      = Inr ''Internal ''"
    by simp
  from fail
    response_returned_whatever_status
      [of "always_raise (Raised ''ConnectionError'')" ?w "''hello''" Map.empty None ?s]
  have c: "fst (Writer_call ?w (always_raise (Raised ''ConnectionError'')) ''hello'' None
      Map.empty ?s) = Inl (Raised ''ConnectionError'')"
    by simp
  from a b c show ?thesis by simp
qed

text \<open>
  The claim as it was stated, that a non-success status makes the call raise, fails: on a
  response with status 500 the call returns the body of that response.
\<close>

theorem non_success_status_counterexample:
  "status_code \<lparr>status_code = 500, resp_text = ''Internal Server Error''\<rparr> = 500 \<and>
   fst (Writer_call (writer_defaults\<lparr>writer_org_id := Some ''org1'', writer_api_key := Some ''key''\<rparr>)
          (always_respond \<lparr>status_code = 500, resp_text = ''Internal Server Error''\<rparr>)
          ''hello'' None Map.empty \<lparr>environ = Map.empty, posted = []\<rparr>)
     = Inr ''Internal Server Error''"
  by (simp add: Writer_call_def Let_def always_respond_def)

subsection \<open>Stop sequences\<close>

lemma occurs_at_Cons: "occurs_at s (c # cs) (Suc i) = occurs_at s cs i"
  by (simp add: occurs_at_def)

lemma stop_at_Cons: "stop_at stops (c # cs) (Suc i) = stop_at stops cs i"
  by (simp add: stop_at_def occurs_at_Cons)

lemma stop_at_0: "stop_at stops t 0 = list_ex (\<lambda>s. prefix s t) stops"
  by (simp add: stop_at_def occurs_at_def)

lemma earliest_stop_iff:
  "earliest_stop stops t i = (stop_at stops t i \<and> (\<forall>j<i. \<not> stop_at stops t j))"
  by (auto simp: earliest_stop_def list_all_iff)

lemma enforce_no_stop:
  "(\<forall>i\<le>length t. \<not> stop_at stops t i) \<Longrightarrow> enforce_stop_tokens t stops = t"
proof (induction t)
  case Nil
  show ?case by simp
next
  case (Cons c cs)
  from Cons.prems have zero: "\<not> stop_at stops (c # cs) 0" by blast
  have "\<forall>i\<le>length cs. \<not> stop_at stops cs i"
  proof (intro allI impI)
    fix i assume "i \<le> length cs"
    then have "\<not> stop_at stops (c # cs) (Suc i)" using Cons.prems by simp
    then show "\<not> stop_at stops cs i" by (simp add: stop_at_Cons)
  qed
  then have "enforce_stop_tokens cs stops = cs" by (rule Cons.IH)
  with zero show ?case by (simp add: stop_at_0)
qed

lemma enforce_earliest:
  "earliest_stop stops t i \<Longrightarrow> enforce_stop_tokens t stops = take i t"
proof (induction t arbitrary: i)
  case Nil
  show ?case by simp
next
  case (Cons c cs)
  show ?case
  proof (cases i)
    case 0
    with Cons.prems have "stop_at stops (c # cs) 0" by (simp add: earliest_stop_iff)
    with 0 show ?thesis by (simp add: stop_at_0)
  next
    case (Suc j)
    with Cons.prems have here: "stop_at stops cs j"
      by (simp add: earliest_stop_iff stop_at_Cons)
    from Suc Cons.prems have zero: "\<not> stop_at stops (c # cs) 0"
      by (simp add: earliest_stop_iff)
    have "\<forall>k<j. \<not> stop_at stops cs k"
    proof (intro allI impI)
      fix k assume "k < j"
      then have "\<not> stop_at stops (c # cs) (Suc k)"
        using Cons.prems Suc by (simp add: earliest_stop_iff)
      then show "\<not> stop_at stops cs k" by (simp add: stop_at_Cons)
    qed
    with here have "earliest_stop stops cs j" by (simp add: earliest_stop_iff)
    then have "enforce_stop_tokens cs stops = take j cs" by (rule Cons.IH)
    with zero Suc show ?thesis by (simp add: stop_at_0)
  qed
qed

text \<open>
  The two cases of the specification leave nothing out: either there is an earliest
  occurrence of a listed stop sequence, or none occurs.
\<close>

lemma earliest_stop_exhaustive:
  "(\<exists>i. earliest_stop stops t i) \<or> (\<forall>i\<le>length t. \<not> stop_at stops t i)"
proof (cases "\<exists>i. stop_at stops t i")
  case True
  then obtain i where i: "stop_at stops t i" ..
  define j where "j = (LEAST i. stop_at stops t i)"
  from i have "stop_at stops t j"
    unfolding j_def by (rule LeastI)
  moreover have "\<forall>k<j. \<not> stop_at stops t k"
    unfolding j_def using not_less_Least by blast
  ultimately have "earliest_stop stops t j"
    by (simp add: earliest_stop_iff)
  then show ?thesis by blast
next
  case False
  then show ?thesis by blast
qed

text \<open>
  C2. When the POST returns a response with text \<open>T\<close>: with no stop list the call
  returns \<open>T\<close> unmodified; with a non-empty stop list it returns the prefix of \<open>T\<close> that
  ends immediately before the earliest occurrence in \<open>T\<close> of any listed stop sequence,
  and \<open>T\<close> exactly when no listed stop sequence occurs in \<open>T\<close>.
\<close>

theorem stop_truncation:
  "requests_post (build_request w prompt kwargs) = Inr r \<longrightarrow>
     fst (Writer_call w requests_post prompt None kwargs s) = Inr (resp_text r) \<and>
     (\<forall>stops. stops \<noteq> [] \<longrightarrow>
        (\<forall>i. earliest_stop stops (resp_text r) i \<longrightarrow>
           fst (Writer_call w requests_post prompt (Some stops) kwargs s)
             = Inr (take i (resp_text r))) \<and>
        ((\<forall>i\<le>length (resp_text r). \<not> stop_at stops (resp_text r) i) \<longrightarrow>
           fst (Writer_call w requests_post prompt (Some stops) kwargs s)
             = Inr (resp_text r)))"
  by (simp add: Writer_call_response enforce_earliest enforce_no_stop)

text \<open>
  With the stop list \<open>STOP1\<close>, \<open>STOP2\<close> and a text that has \<open>STOP1\<close> at index 10 and
  \<open>STOP2\<close> at index 20, the call returns the first ten characters.
\<close>

theorem stop_truncation_witness:
  "occurs_at ''STOP1'' ''0123456789STOP1abcdeSTOP2xyz'' 10 \<and>
   occurs_at ''STOP2'' ''0123456789STOP1abcdeSTOP2xyz'' 20 \<and>
   fst (Writer_call (writer_defaults\<lparr>writer_org_id := Some ''org1'', writer_api_key := Some ''key''\<rparr>)
          (always_respond \<lparr>status_code = 200, resp_text = ''0123456789STOP1abcdeSTOP2xyz''\<rparr>)
          ''hello'' (Some [''STOP1'', ''STOP2'']) Map.empty \<lparr>environ = Map.empty, posted = []\<rparr>)
     = Inr ''0123456789'' \<and>
   fst (Writer_call (writer_defaults\<lparr>writer_org_id := Some ''org1'', writer_api_key := Some ''key''\<rparr>)
          (always_respond \<lparr>status_code = 200, resp_text = ''0123456789STOP1abcdeSTOP2xyz''\<rparr>)
          ''hello'' (Some [''END'']) Map.empty \<lparr>environ = Map.empty, posted = []\<rparr>)
     = Inr ''0123456789STOP1abcdeSTOP2xyz'' \<and>
   fst (Writer_call (writer_defaults\<lparr>writer_org_id := Some ''org1'', writer_api_key := Some ''key''\<rparr>)
          (always_respond \<lparr>status_code = 200, resp_text = ''0123456789STOP1abcdeSTOP2xyz''\<rparr>)
          ''hello'' None Map.empty \<lparr>environ = Map.empty, posted = []\<rparr>)
     = Inr ''0123456789STOP1abcdeSTOP2xyz''"
proof -
  let ?T = "''0123456789STOP1abcdeSTOP2xyz''"
  let ?r = "\<lparr>status_code = 200, resp_text = ?T\<rparr>"
  let ?w = "writer_defaults\<lparr>writer_org_id := Some ''org1'', writer_api_key := Some ''key''\<rparr>"
  let ?s = "\<lparr>environ = Map.empty, posted = []\<rparr>"
  note t = stop_truncation [of "always_respond ?r" ?w "''hello''" Map.empty ?r ?s]
  have post: "always_respond ?r (build_request ?w ''hello'' Map.empty) = Inr ?r"
    by (simp add: always_respond_def)
  have o1: "occurs_at ''STOP1'' ?T 10" by code_simp
  have o2: "occurs_at ''STOP2'' ?T 20" by code_simp
  have e: "earliest_stop [''STOP1'', ''STOP2''] ?T 10" by code_simp
  have "list_all (\<lambda>i. \<not> stop_at [''END''] ?T i) [0..<29]" by code_simp
  then have none: "\<forall>i\<le>length ?T. \<not> stop_at [''END''] ?T i"
    by (simp add: list_all_iff less_Suc_eq_le [symmetric] del: upt_Suc)
  from t post have a: "fst (Writer_call ?w (always_respond ?r) ''hello'' None Map.empty ?s) = Inr ?T"
    by simp
  from t post e have b: "fst (Writer_call ?w (always_respond ?r) ''hello''
      (Some [''STOP1'', ''STOP2'']) Map.empty ?s) = Inr (take 10 ?T)"
    by simp
  from t post none have c: "fst (Writer_call ?w (always_respond ?r) ''hello''
      (Some [''END'']) Map.empty ?s) = Inr ?T"
    by simp
  have tk: "take 10 ?T = ''0123456789''" by code_simp
  from a b c o1 o2 tk show ?thesis by simp
qed

subsection \<open>Endpoint\<close>

text \<open>
  C7. The request endpoint is the configured base URL verbatim when one is set, whatever
  the organization and model ids; without one it is the fixed template with the
  organization id and the model id substituted, so that organization \<open>org1\<close> and model
  \<open>modelA\<close> give
  \<^verbatim>\<open>https://enterprise-api.writer.com/llm/organization/org1/model/modelA/completions\<close>,
  and the override \<^verbatim>\<open>https://x/y\<close> gives \<^verbatim>\<open>https://x/y\<close>. The endpoint is the URL of
  the request that the call posts.
\<close>

theorem endpoint_resolution:
  "(\<forall>u. base_url w = Some u \<longrightarrow> endpoint w = u) \<and>
   (\<forall>org. base_url w = None \<and> writer_org_id w = Some org \<longrightarrow>
      endpoint w = ''https://enterprise-api.writer.com/llm/organization/'' @ org
                   @ ''/model/'' @ model_id w @ ''/completions'') \<and>
   url (build_request w prompt kwargs) = endpoint w"
  by (simp add: endpoint_def build_request_def)

theorem endpoint_resolution_witness:
  "endpoint (writer_defaults\<lparr>writer_org_id := Some ''org1'', model_id := ''modelA''\<rparr>)
     = ''https://enterprise-api.writer.com/llm/organization/org1/model/modelA/completions''
   \<and> endpoint (writer_defaults\<lparr>writer_org_id := Some ''org1'', model_id := ''modelA'',
                                base_url := Some ''https://x/y''\<rparr>) = ''https://x/y''
   \<and> endpoint (writer_defaults\<lparr>writer_org_id := Some ''other'', model_id := ''modelB'',
                                base_url := Some ''https://x/y''\<rparr>) = ''https://x/y''"
  using
    endpoint_resolution [of "writer_defaults\<lparr>writer_org_id := Some ''org1'',
                               model_id := ''modelA''\<rparr>"]
    endpoint_resolution [of "writer_defaults\<lparr>writer_org_id := Some ''org1'',
                               model_id := ''modelA'', base_url := Some ''https://x/y''\<rparr>"]
    endpoint_resolution [of "writer_defaults\<lparr>writer_org_id := Some ''other'',
                               model_id := ''modelB'', base_url := Some ''https://x/y''\<rparr>"]
  by (simp add: writer_defaults_def)

subsection \<open>Construction\<close>

lemma Writer_init_world: "snd (Writer_init base_fields names given s) = s"
  by (simp add: Writer_init_def Let_def split: sum.splits)

lemma validate_environment_no_key:
  "writer_api_key given = None \<Longrightarrow> env ''WRITER_API_KEY'' = None \<Longrightarrow>
   validate_environment given env = Inl (ValueError ''writer_api_key'')"
  by (simp add: validate_environment_def get_from_dict_or_env_def)

lemma validate_environment_no_org:
  "writer_org_id given = None \<Longrightarrow> env ''WRITER_ORG_ID'' = None \<Longrightarrow>
   validate_environment given env = Inl (ValueError ''writer_org_id'') \<or>
   validate_environment given env = Inl (ValueError ''writer_api_key'')"
  by (simp add: validate_environment_def get_from_dict_or_env_def Let_def split: option.splits)

lemma Writer_init_invalid:
  "validate_environment given (environ s) = Inl e \<Longrightarrow>
   \<exists>errs. Writer_init base_fields names given s = (Inl (ValidationError errs), s) \<and> e \<in> set errs"
  by (simp add: Writer_init_def Let_def)

text \<open>
  C8. A construction for which no API key is supplied, neither as an argument nor in the
  process environment, fails with a validation error that holds the configuration error
  of the missing key, and leaves the world as it was: nothing has been posted. The same
  holds for a missing organization id (the error held is that of the organization id, or
  that of the API key when the key is missing too).
\<close>

theorem missing_credential:
  "(writer_api_key given = None \<and> environ s ''WRITER_API_KEY'' = None \<longrightarrow>
      (\<exists>errs. Writer_init base_fields names given s = (Inl (ValidationError errs), s) \<and>
              ValueError ''writer_api_key'' \<in> set errs)) \<and>
   (writer_org_id given = None \<and> environ s ''WRITER_ORG_ID'' = None \<longrightarrow>
      (\<exists>errs. Writer_init base_fields names given s = (Inl (ValidationError errs), s) \<and>
              (ValueError ''writer_org_id'' \<in> set errs \<or>
               ValueError ''writer_api_key'' \<in> set errs)))"
proof (intro conjI impI)
  assume "writer_api_key given = None \<and> environ s ''WRITER_API_KEY'' = None"
  then have "validate_environment given (environ s) = Inl (ValueError ''writer_api_key'')"
    by (simp add: validate_environment_no_key)
  then show "\<exists>errs. Writer_init base_fields names given s = (Inl (ValidationError errs), s) \<and>
              ValueError ''writer_api_key'' \<in> set errs"
    by (rule Writer_init_invalid)
next
  assume "writer_org_id given = None \<and> environ s ''WRITER_ORG_ID'' = None"
  then have "validate_environment given (environ s) = Inl (ValueError ''writer_org_id'') \<or>
             validate_environment given (environ s) = Inl (ValueError ''writer_api_key'')"
    by (simp add: validate_environment_no_org)
  then show "\<exists>errs. Writer_init base_fields names given s = (Inl (ValidationError errs), s) \<and>
              (ValueError ''writer_org_id'' \<in> set errs \<or>
               ValueError ''writer_api_key'' \<in> set errs)"
    using Writer_init_invalid by blast
qed

theorem missing_credential_witness:
  "Writer_init [] [''model_id''] (writer_defaults\<lparr>model_id := ''palmyra-base''\<rparr>)
       \<lparr>environ = Map.empty, posted = []\<rparr>
     = (Inl (ValidationError [ValueError ''writer_api_key'']),
        \<lparr>environ = Map.empty, posted = []\<rparr>) \<and>
   Writer_init [] [''writer_api_key''] (writer_defaults\<lparr>writer_api_key := Some ''key''\<rparr>)
       \<lparr>environ = Map.empty, posted = []\<rparr>
     = (Inl (ValidationError [ValueError ''writer_org_id'']),
        \<lparr>environ = Map.empty, posted = []\<rparr>)"
  using
    missing_credential [of "writer_defaults\<lparr>model_id := ''palmyra-base''\<rparr>"
       "\<lparr>environ = Map.empty, posted = []\<rparr>" "[]" "[''model_id'']"]
    missing_credential [of "writer_defaults\<lparr>writer_api_key := Some ''key''\<rparr>"
       "\<lparr>environ = Map.empty, posted = []\<rparr>" "[]" "[''writer_api_key'']"]
  by (simp add: Writer_init_def validate_environment_def get_from_dict_or_env_def
        writer_defaults_def writer_fields_def)

text \<open>
  C9. A construction that supplies a keyword name outside the declared fields fails with
  a validation error that reports the name as forbidden.
\<close>

theorem extra_field_forbidden:
  "k \<in> set names \<and> k \<notin> set (writer_fields @ base_fields) \<longrightarrow>
     (\<exists>errs. Writer_init base_fields names given s = (Inl (ValidationError errs), s) \<and>
             ExtraForbidden k \<in> set errs)"
  by (auto simp: Writer_init_def Let_def filter_empty_conv split: sum.splits)

theorem extra_field_forbidden_witness:
  "Writer_init [''verbose''] [''writer_api_key'', ''colour'', ''verbose'']
       (writer_defaults\<lparr>writer_api_key := Some ''key''\<rparr>)
       \<lparr>environ = [''WRITER_ORG_ID'' \<mapsto> ''org1''], posted = []\<rparr>
     = (Inl (ValidationError [ExtraForbidden ''colour'']),
        \<lparr>environ = [''WRITER_ORG_ID'' \<mapsto> ''org1''], posted = []\<rparr>)"
  using extra_field_forbidden [of "''colour''" "[''writer_api_key'', ''colour'', ''verbose'']"
       "[''verbose'']" "writer_defaults\<lparr>writer_api_key := Some ''key''\<rparr>"
       "\<lparr>environ = [''WRITER_ORG_ID'' \<mapsto> ''org1''], posted = []\<rparr>"]
  by (simp add: Writer_init_def validate_environment_def get_from_dict_or_env_def
        writer_defaults_def writer_fields_def)

text \<open>
  A construction with declared names only, the key given and the organization id in the
  environment, succeeds.
\<close>

lemma Writer_init_ok:
  "Writer_init [''verbose''] [''writer_api_key'', ''verbose'']
       (writer_defaults\<lparr>writer_api_key := Some ''key''\<rparr>)
       \<lparr>environ = [''WRITER_ORG_ID'' \<mapsto> ''org1''], posted = []\<rparr>
     = (Inr (writer_defaults\<lparr>writer_api_key := Some ''key'', writer_org_id := Some ''org1''\<rparr>),
        \<lparr>environ = [''WRITER_ORG_ID'' \<mapsto> ''org1''], posted = []\<rparr>)"
  by (simp add: Writer_init_def validate_environment_def get_from_dict_or_env_def
        writer_defaults_def writer_fields_def)

section \<open>Properties of the graph question-answering chain\<close>

lemma generation_calls_append:
  "generation_calls (xs @ ys) = generation_calls xs @ generation_calls ys"
  by (induction xs rule: generation_calls.induct) simp_all

lemma answer_calls_append:
  "answer_calls (xs @ ys) = answer_calls xs @ answer_calls ys"
  by (induction xs rule: answer_calls.induct) simp_all

lemma graph_queries_append:
  "graph_queries (xs @ ys) = graph_queries xs @ graph_queries ys"
  by (induction xs rule: graph_queries.induct) simp_all

lemma call_trace_generation:
  "inputs (input_key c) = Some q \<Longrightarrow>
   generation_calls (fst (KuzuQAChain_call c str inputs))
     = [[''question'' \<mapsto> q, ''schema'' \<mapsto> PyStr (graph_get_schema c)]]"
  by (simp add: KuzuQAChain_call_def Let_def generation_calls_append
        split: sum.splits option.splits)

lemma call_generation_raises:
  assumes "inputs (input_key c) = Some q"
    and "cypher_generation_chain_run c
           [''question'' \<mapsto> q, ''schema'' \<mapsto> PyStr (graph_get_schema c)] = Inl e"
  shows "KuzuQAChain_call c str inputs
           = ([GenerationRun [''question'' \<mapsto> q, ''schema'' \<mapsto> PyStr (graph_get_schema c)]],
              Inl e)"
  using assms by (simp add: KuzuQAChain_call_def Let_def)

lemma call_generation_returns:
  assumes "inputs (input_key c) = Some q"
    and "cypher_generation_chain_run c
           [''question'' \<mapsto> q, ''schema'' \<mapsto> PyStr (graph_get_schema c)] = Inr cy"
  shows "graph_queries (fst (KuzuQAChain_call c str inputs)) = [cy]"
    and "graph_query c cy = Inl e \<Longrightarrow> snd (KuzuQAChain_call c str inputs) = Inl e"
  using assms
  by (simp_all add: KuzuQAChain_call_def Let_def graph_queries_append
        split: sum.splits option.splits)

text \<open>
  C4. For a question \<open>q\<close> under the input key and the schema \<open>s\<close> of the graph, the
  query-generation chain is run once, on exactly the named inputs \<open>question = q\<close> and
  \<open>schema = s\<close>: the \<open>question\<close> entry is \<open>q\<close> whatever the schema, the \<open>schema\<close>
  entry is \<open>s\<close> whatever the question, and there is no other entry. What the chain
  does next is decided by the generation chain applied to exactly this mapping: its
  exception is the outcome of the invocation, and the query it returns is the query that
  the graph is asked to run (so an exception of the graph on that query is the outcome).
\<close>

theorem generation_inputs:
  "inputs (input_key c) = Some q \<longrightarrow>
     (\<exists>m. generation_calls (fst (KuzuQAChain_call c str inputs)) = [m] \<and>
          m = [''question'' \<mapsto> q, ''schema'' \<mapsto> PyStr (graph_get_schema c)] \<and>
          m ''question'' = Some q \<and>
          m ''schema'' = Some (PyStr (graph_get_schema c)) \<and>
          dom m = {''question'', ''schema''} \<and>
          (\<forall>e. cypher_generation_chain_run c m = Inl e \<longrightarrow>
               KuzuQAChain_call c str inputs = ([GenerationRun m], Inl e)) \<and>
          (\<forall>cy. cypher_generation_chain_run c m = Inr cy \<longrightarrow>
               graph_queries (fst (KuzuQAChain_call c str inputs)) = [cy] \<and>
               (\<forall>e. graph_query c cy = Inl e \<longrightarrow>
                    snd (KuzuQAChain_call c str inputs) = Inl e)))"
proof
  assume q: "inputs (input_key c) = Some q"
  let ?m = "[''question'' \<mapsto> q, ''schema'' \<mapsto> PyStr (graph_get_schema c)]"
  have 1: "generation_calls (fst (KuzuQAChain_call c str inputs)) = [?m]"
    using q by (rule call_trace_generation)
  have 2: "?m ''question'' = Some q" "?m ''schema'' = Some (PyStr (graph_get_schema c))"
    "dom ?m = {''question'', ''schema''}"
    by auto
  have 3: "\<forall>e. cypher_generation_chain_run c ?m = Inl e \<longrightarrow>
               KuzuQAChain_call c str inputs = ([GenerationRun ?m], Inl e)"
    using q call_generation_raises by blast
  have 4: "\<forall>cy. cypher_generation_chain_run c ?m = Inr cy \<longrightarrow>
               graph_queries (fst (KuzuQAChain_call c str inputs)) = [cy] \<and>
               (\<forall>e. graph_query c cy = Inl e \<longrightarrow>
                    snd (KuzuQAChain_call c str inputs) = Inl e)"
    using q call_generation_returns by blast
  from 1 2 3 4 show "\<exists>m. generation_calls (fst (KuzuQAChain_call c str inputs)) = [m] \<and>
          m = ?m \<and> m ''question'' = Some q \<and>
          m ''schema'' = Some (PyStr (graph_get_schema c)) \<and>
          dom m = {''question'', ''schema''} \<and>
          (\<forall>e. cypher_generation_chain_run c m = Inl e \<longrightarrow>
               KuzuQAChain_call c str inputs = ([GenerationRun m], Inl e)) \<and>
          (\<forall>cy. cypher_generation_chain_run c m = Inr cy \<longrightarrow>
               graph_queries (fst (KuzuQAChain_call c str inputs)) = [cy] \<and>
               (\<forall>e. graph_query c cy = Inl e \<longrightarrow>
                    snd (KuzuQAChain_call c str inputs) = Inl e))"
    by blast
qed

theorem generation_inputs_witness:
  "generation_calls (fst (KuzuQAChain_call asking_chain (\<lambda>v. ''rows'')
       [''query'' \<mapsto> PyStr ''Who is there?'']))
     = [[''question'' \<mapsto> PyStr ''Who is there?'', ''schema'' \<mapsto> PyStr ''Node: Person(name)'']] \<and>
   graph_queries (fst (KuzuQAChain_call asking_chain (\<lambda>v. ''rows'')
       [''query'' \<mapsto> PyStr ''Who is there?''])) = [''MATCH (p:Person) RETURN p.name''] \<and>
   KuzuQAChain_call asking_chain (\<lambda>v. ''rows'') [''query'' \<mapsto> PyStr ''What?'']
     = ([GenerationRun [''question'' \<mapsto> PyStr ''What?'',
                        ''schema'' \<mapsto> PyStr ''Node: Person(name)'']],
        Inl (Raised ''NoQuery''))"
proof -
  let ?i = "[''query'' \<mapsto> PyStr ''Who is there?'']"
  let ?j = "[''query'' \<mapsto> PyStr ''What?'']"
  have k: "input_key asking_chain = ''query''"
    "graph_get_schema asking_chain = ''Node: Person(name)''"
    by (simp_all add: asking_chain_def example_chain_def KuzuQAChain_new_def)
  have g1: "cypher_generation_chain_run asking_chain
      [''question'' \<mapsto> PyStr ''Who is there?'', ''schema'' \<mapsto> PyStr ''Node: Person(name)'']
      = Inr ''MATCH (p:Person) RETURN p.name''"
    by (simp add: asking_chain_def example_chain_def KuzuQAChain_new_def)
  have g2: "cypher_generation_chain_run asking_chain
      [''question'' \<mapsto> PyStr ''What?'', ''schema'' \<mapsto> PyStr ''Node: Person(name)'']
      = Inl (Raised ''NoQuery'')"
    by (simp add: asking_chain_def example_chain_def KuzuQAChain_new_def)
  from k g1
    generation_inputs [of ?i asking_chain "PyStr ''Who is there?''" "\<lambda>v. ''rows''"]
  have a: "generation_calls (fst (KuzuQAChain_call asking_chain (\<lambda>v. ''rows'') ?i))
      = [[''question'' \<mapsto> PyStr ''Who is there?'', ''schema'' \<mapsto> PyStr ''Node: Person(name)'']]"
    "graph_queries (fst (KuzuQAChain_call asking_chain (\<lambda>v. ''rows'') ?i))
      = [''MATCH (p:Person) RETURN p.name'']"
    by simp_all
  from k g2
    generation_inputs [of ?j asking_chain "PyStr ''What?''" "\<lambda>v. ''rows''"]
  have b: "KuzuQAChain_call asking_chain (\<lambda>v. ''rows'') ?j
     = ([GenerationRun [''question'' \<mapsto> PyStr ''What?'',
                        ''schema'' \<mapsto> PyStr ''Node: Person(name)'']],
        Inl (Raised ''NoQuery''))"
    by simp
  from a b show ?thesis by simp
qed

lemma call_after_query:
  assumes "inputs (input_key c) = Some q"
    and "cypher_generation_chain_run c
           [''question'' \<mapsto> q, ''schema'' \<mapsto> PyStr (graph_get_schema c)] = Inr cy"
    and "graph_query c cy = Inr ctx"
  shows "answer_calls (fst (KuzuQAChain_call c str inputs))
           = [[''question'' \<mapsto> q, ''context'' \<mapsto> ctx]]"
    and "qa_chain c [''question'' \<mapsto> q, ''context'' \<mapsto> ctx] = Inr result \<Longrightarrow>
         result (qa_chain_output_key c) = Some a \<Longrightarrow>
         snd (KuzuQAChain_call c str inputs) = Inr [output_key c \<mapsto> a]"
  using assms
  by (simp_all add: KuzuQAChain_call_def Let_def answer_calls_append
        split: sum.splits option.splits)

text \<open>
  C5. When the generated query runs and the graph returns \<open>ctx\<close>, the answer chain is
  called once, on exactly the named inputs \<open>question = q\<close> and \<open>context = ctx\<close>, the
  result of the query as it is; and when that call returns, the chain returns the entry
  of its result under the answer chain's output key.
\<close>

theorem answer_inputs:
  "inputs (input_key c) = Some q \<and>
   cypher_generation_chain_run c
     [''question'' \<mapsto> q, ''schema'' \<mapsto> PyStr (graph_get_schema c)] = Inr cy \<and>
   graph_query c cy = Inr ctx \<longrightarrow>
     answer_calls (fst (KuzuQAChain_call c str inputs))
       = [[''question'' \<mapsto> q, ''context'' \<mapsto> ctx]] \<and>
     (\<forall>result a. qa_chain c [''question'' \<mapsto> q, ''context'' \<mapsto> ctx] = Inr result \<and>
          result (qa_chain_output_key c) = Some a \<longrightarrow>
          snd (KuzuQAChain_call c str inputs) = Inr [output_key c \<mapsto> a])"
  using call_after_query by blast

theorem answer_inputs_witness:
  "answer_calls (fst (KuzuQAChain_call example_chain (\<lambda>v. ''rows'')
       [''query'' \<mapsto> PyStr ''Who is there?'']))
     = [[''question'' \<mapsto> PyStr ''Who is there?'',
         ''context'' \<mapsto> PyList [PyDict [(''p.name'', PyStr ''Ada'')]]]] \<and>
   snd (KuzuQAChain_call example_chain (\<lambda>v. ''rows'') [''query'' \<mapsto> PyStr ''Who is there?''])
     = Inr [''result'' \<mapsto> PyStr ''Ada'']"
  using answer_inputs [of "[''query'' \<mapsto> PyStr ''Who is there?'']" example_chain
      "PyStr ''Who is there?''" "''MATCH (p:Person) RETURN p.name''"
      "PyList [PyDict [(''p.name'', PyStr ''Ada'')]]" "\<lambda>v. ''rows''"]
  by (simp add: example_chain_def KuzuQAChain_new_def)

lemma call_query_raises:
  assumes "inputs (input_key c) = Some q"
    and "cypher_generation_chain_run c
           [''question'' \<mapsto> q, ''schema'' \<mapsto> PyStr (graph_get_schema c)] = Inr cy"
    and "graph_query c cy = Inl e"
  shows "snd (KuzuQAChain_call c str inputs) = Inl e"
    and "graph_queries (fst (KuzuQAChain_call c str inputs)) = [cy]"
    and "answer_calls (fst (KuzuQAChain_call c str inputs)) = []"
  using assms
  by (simp_all add: KuzuQAChain_call_def Let_def)

text \<open>
  C6. When the graph raises on the generated query, the chain raises the same exception:
  the query has been run once, the answer chain has not been called, nothing was caught
  or translated.
\<close>

theorem query_error_propagates:
  "inputs (input_key c) = Some q \<and>
   cypher_generation_chain_run c
     [''question'' \<mapsto> q, ''schema'' \<mapsto> PyStr (graph_get_schema c)] = Inr cy \<and>
   graph_query c cy = Inl e \<longrightarrow>
     snd (KuzuQAChain_call c str inputs) = Inl e \<and>
     graph_queries (fst (KuzuQAChain_call c str inputs)) = [cy] \<and>
     answer_calls (fst (KuzuQAChain_call c str inputs)) = []"
  using call_query_raises by blast

theorem query_error_propagates_witness:
  "snd (KuzuQAChain_call broken_graph_chain (\<lambda>v. ''rows'') [''query'' \<mapsto> PyStr ''Who is there?''])
     = Inl (Raised ''RuntimeError'') \<and>
   graph_queries (fst (KuzuQAChain_call broken_graph_chain (\<lambda>v. ''rows'')
       [''query'' \<mapsto> PyStr ''Who is there?''])) = [''MATCH'']"
  using query_error_propagates [of "[''query'' \<mapsto> PyStr ''Who is there?'']" broken_graph_chain
      "PyStr ''Who is there?''" "''MATCH''" "Raised ''RuntimeError''" "\<lambda>v. ''rows''"]
  by (simp add: broken_graph_chain_def example_chain_def KuzuQAChain_new_def)

lemma call_result_shape:
  "snd (KuzuQAChain_call c str inputs) = Inr out \<Longrightarrow> \<exists>a. out = [output_key c \<mapsto> a]"
  by (auto simp: KuzuQAChain_call_def Let_def split: sum.splits option.splits)

lemma call_result_dom:
  assumes "snd (KuzuQAChain_call c str inputs) = Inr out"
  shows "dom out = {output_key c}"
proof -
  from assms obtain a where "out = [output_key c \<mapsto> a]"
    using call_result_shape by blast
  then show ?thesis by simp
qed

text \<open>
  C10 (as amended). The declared input keys are the one-element list of the instance's
  input key field and the declared output keys that of its output key field; an instance
  constructed without overriding these fields declares \<open>query\<close> and \<open>result\<close>. Every
  successful invocation returns a mapping whose only key is the output key field.
\<close>

theorem declared_keys:
  "input_keys c = [input_key c] \<and> output_keys c = [output_key c] \<and>
   input_keys (KuzuQAChain_new schema run_query generate answer answer_key) = [''query''] \<and>
   output_keys (KuzuQAChain_new schema run_query generate answer answer_key) = [''result''] \<and>
   (\<forall>out. snd (KuzuQAChain_call c str inputs) = Inr out \<longrightarrow> dom out = {output_key c})"
  by (simp add: input_keys_def output_keys_def KuzuQAChain_new_def call_result_dom)

theorem declared_keys_witness:
  "input_keys example_chain = [''query''] \<and> output_keys example_chain = [''result''] \<and>
   snd (KuzuQAChain_call example_chain (\<lambda>v. ''rows'') [''query'' \<mapsto> PyStr ''Who is there?''])
     = Inr [''result'' \<mapsto> PyStr ''Ada''] \<and>
   dom [''result'' \<mapsto> PyStr ''Ada''] = {''result''}"
  using declared_keys [of example_chain "''Node: Person(name)''" "graph_query example_chain"
      "cypher_generation_chain_run example_chain" "qa_chain example_chain" "''text''"
      "\<lambda>v. ''rows''" "[''query'' \<mapsto> PyStr ''Who is there?'']"]
  by (simp add: example_chain_def KuzuQAChain_new_def KuzuQAChain_call_def input_keys_def output_keys_def)

text \<open>
  The claim as it was stated, for every instance, fails on an instance whose input key
  field was set at construction.
\<close>

theorem declared_keys_counterexample:
  "input_keys (example_chain\<lparr>input_key := ''question''\<rparr>) \<noteq> [''query'']"
  by (simp add: input_keys_def)

end
